theory Spec2Isabelle
  imports Main
begin

section \<open>Values shared by the field components\<close>

text \<open>
  The components are written in TypeScript on top of React and of the solid-client
  library. Things and datasets are opaque to the components, so they are type
  parameters \<open>'t\<close> and \<open>'d\<close>; \<open>'x\<close> is the type of the values a rejected promise or
  a throwing callback may carry besides an \<open>Error\<close> object.
\<close>

type_synonym property = string

type_synonym attrs = "(string \<times> string) list"

text \<open>\<open>Url | UrlString\<close>: a named node (an object) or a plain string.\<close>

datatype url = NamedNode string | UrlString string

text \<open>JavaScript truthiness: an object is always truthy, a string when it is not empty.\<close>

fun truthy_url :: "url \<Rightarrow> bool" where
  "truthy_url (NamedNode n) = True"
| "truthy_url (UrlString u) = (u \<noteq> [])"

definition truthy_string :: "string \<Rightarrow> bool" where
  "truthy_string u = (u \<noteq> [])"

text \<open>What a \<open>throw\<close> or a rejected promise carries, and how a callback ends.\<close>

datatype 'x thrown = Error string | Rejection 'x

datatype 'x completion = Returned | Threw "'x thrown"

text \<open>
  The functions imported from \<open>@inrupt/solid-client\<close>. The three setters are pure and
  return a new object; \<open>saveSolidDatasetAt\<close> is the external writer, whose promise
  is either rejected (\<open>Inl\<close>) or resolved with the saved dataset (\<open>Inr\<close>).
\<close>

record ('t, 'd, 'x) solid_client =
  setStringWithLocale :: "'t \<Rightarrow> property \<Rightarrow> string \<Rightarrow> string \<Rightarrow> 't"
  setStringNoLocale :: "'t \<Rightarrow> property \<Rightarrow> string \<Rightarrow> 't"
  setThing :: "'d \<Rightarrow> 't \<Rightarrow> 'd"
  saveSolidDatasetAt :: "url \<Rightarrow> 'd \<Rightarrow> 'x thrown + 'd"
  getSourceUrl :: "'d \<Rightarrow> string"
  hasResourceInfo :: "'d \<Rightarrow> bool"

section \<open>The Text component\<close>

subsection \<open>Props, hook results and state\<close>

text \<open>The props of \<open>Text\<close>; \<open>other\<close> is the rest of the props, spread on the span.\<close>

record ('t, 'd, 'x) props =
  saveDatasetTo :: "url option"
  "locale" :: "string option"
  onSave :: "('d option \<Rightarrow> 't \<Rightarrow> 'x completion) option"
  onError :: "('x thrown \<Rightarrow> 'x completion) option"
  edit :: bool
  autosave :: bool
  inputProps :: "attrs option"
  other :: attrs

text \<open>
  What \<open>useProperty\<close> returns besides the dataset and its setter: the resolution
  error, the resolved value, the thing and the property.
\<close>

record ('t, 'x) resolution =
  error :: "'x thrown option"
  "value" :: "string option"
  thing :: "'t option"
  property :: property

text \<open>
  The state behind one mounted \<open>Text\<close>: its three \<open>useState\<close> cells and the
  dataset that \<open>useProperty\<close> hands out together with \<open>setDataset\<close>.

  Modelled from the spec: \<open>useProperty\<close> and its \<open>setDataset\<close> live in the helpers
  module, which is not among the sources. \<open>setDataset\<close> replaces the canonical
  dataset ("on success, replace canonical state with the server-acknowledged result").

  The second \<open>useState\<close> cell is only ever written with an updater function that throws.
  React does not run an updater inside the call of the setter: it queues it and runs it
  when the component renders next, so the exception leaves the render of \<open>Text\<close> and not
  the \<open>try\<close> block (this is how an asynchronous handler hands an error to the enclosing
  error boundary). \<open>errorState\<close> is the message of the queued throwing updater, if any.
\<close>

record 'd state =
  "text" :: "string option"
  initialValue :: "string option"
  errorState :: "string option"
  dataset :: "'d option"

text \<open>Everything a handler does that can be seen from outside, in order.\<close>

datatype ('t, 'd, 'x) effect =
    Call_saveSolidDatasetAt url 'd
  | Call_setDataset 'd
  | Call_setErrorState string
  | Call_onSave "'d option" 't
  | Call_onError "'x thrown"
  | Call_setText string
  | Call_setInitialValue string

fun is_write :: "('t, 'd, 'x) effect \<Rightarrow> bool" where
  "is_write (Call_saveSolidDatasetAt u d) = True"
| "is_write e = False"

fun is_setDataset :: "('t, 'd, 'x) effect \<Rightarrow> bool" where
  "is_setDataset (Call_setDataset d) = True"
| "is_setDataset e = False"

fun is_onSave :: "('t, 'd, 'x) effect \<Rightarrow> bool" where
  "is_onSave (Call_onSave d t) = True"
| "is_onSave e = False"

fun is_onError :: "('t, 'd, 'x) effect \<Rightarrow> bool" where
  "is_onError (Call_onError x) = True"
| "is_onError e = False"

text \<open>First render: \<open>useState(value)\<close> twice, \<open>useState()\<close> once.\<close>

definition mount :: "('t, 'x) resolution \<Rightarrow> 'd option \<Rightarrow> 'd state" where
  "mount r d = \<lparr> text = value r, initialValue = value r, errorState = None, dataset = d \<rparr>"

subsection \<open>saveHandler\<close>

text \<open>
  A handler returns the new state, the effects in order, and how it ended: \<open>None\<close>
  when the promise of the \<open>async\<close> function is fulfilled, \<open>Some x\<close> when it is rejected
  with \<open>x\<close>.
\<close>

type_synonym ('t, 'd, 'x) outcome = "'d state \<times> ('t, 'd, 'x) effect list \<times> 'x thrown option"

definition no_destination :: string where
  "no_destination = ''Please provide saveDatasetTo location for new data''"

text \<open>
  \<open>savedDataset = await saveSolidDatasetAt(u, d, { fetch }); setDataset(savedDataset)\<close>:
  \<open>Inl\<close> when the \<open>await\<close> throws, otherwise the value of \<open>savedDataset\<close>.
\<close>

definition save_at ::
  "('t, 'd, 'x) solid_client \<Rightarrow> url \<Rightarrow> 'd \<Rightarrow> 'd state \<Rightarrow>
     'd state \<times> ('t, 'd, 'x) effect list \<times> ('x thrown + 'd option)" where
  "save_at c u d s =
     (case saveSolidDatasetAt c u d of
        Inl x \<Rightarrow> (s, [Call_saveSolidDatasetAt u d], Inl x)
      | Inr savedDataset \<Rightarrow>
          (s\<lparr>dataset := Some savedDataset\<rparr>,
           [Call_saveSolidDatasetAt u d, Call_setDataset savedDataset],
           Inr (Some savedDataset)))"

text \<open>The three branches on the destination (the \<open>if\<close> / \<open>else if\<close> / \<open>else\<close> of the \<open>try\<close>).\<close>

definition save_branch ::
  "('t, 'd, 'x) solid_client \<Rightarrow> ('t, 'd, 'x) props \<Rightarrow> 'd \<Rightarrow> 't \<Rightarrow> 'd state \<Rightarrow>
     'd state \<times> ('t, 'd, 'x) effect list \<times> ('x thrown + 'd option)" where
  "save_branch c p d updatedResource s =
     (case saveDatasetTo p of
        Some u \<Rightarrow>
          if truthy_url u then save_at c u (setThing c d updatedResource) s
          else if hasResourceInfo c d
          then save_at c (UrlString (getSourceUrl c d)) (setThing c d updatedResource) s
          else (s\<lparr>errorState := Some no_destination\<rparr>,
                [Call_setErrorState no_destination], Inr None)
      | None \<Rightarrow>
          if hasResourceInfo c d
          then save_at c (UrlString (getSourceUrl c d)) (setThing c d updatedResource) s
          else (s\<lparr>errorState := Some no_destination\<rparr>,
                [Call_setErrorState no_destination], Inr None))"

text \<open>The whole \<open>try\<close> block: the branch, then \<open>if (onSave) onSave(savedDataset, updatedResource)\<close>.\<close>

definition try_block ::
  "('t, 'd, 'x) solid_client \<Rightarrow> ('t, 'd, 'x) props \<Rightarrow> 'd \<Rightarrow> 't \<Rightarrow> 'd state \<Rightarrow>
     ('t, 'd, 'x) outcome" where
  "try_block c p d updatedResource s =
     (case save_branch c p d updatedResource s of
        (s', tr, Inl x) \<Rightarrow> (s', tr, Some x)
      | (s', tr, Inr savedDataset) \<Rightarrow>
          (case onSave p of
             None \<Rightarrow> (s', tr, None)
           | Some f \<Rightarrow>
               (case f savedDataset updatedResource of
                  Returned \<Rightarrow> (s', tr @ [Call_onSave savedDataset updatedResource], None)
                | Threw x \<Rightarrow> (s', tr @ [Call_onSave savedDataset updatedResource], Some x))))"

text \<open>\<open>catch (saveError) { if (onError) onError(saveError) }\<close>.\<close>

definition catch_block ::
  "('t, 'd, 'x) props \<Rightarrow> ('t, 'd, 'x) outcome \<Rightarrow> ('t, 'd, 'x) outcome" where
  "catch_block p res =
     (case res of
        (s', tr, None) \<Rightarrow> (s', tr, None)
      | (s', tr, Some saveError) \<Rightarrow>
          (case onError p of
             None \<Rightarrow> (s', tr, None)
           | Some g \<Rightarrow>
               (case g saveError of
                  Returned \<Rightarrow> (s', tr @ [Call_onError saveError], None)
                | Threw y \<Rightarrow> (s', tr @ [Call_onError saveError], Some y))))"

text \<open>\<open>v\<close> is \<open>e.target.value\<close>.\<close>

definition saveHandler ::
  "('t, 'd, 'x) solid_client \<Rightarrow> ('t, 'd, 'x) props \<Rightarrow> ('t, 'x) resolution \<Rightarrow> 'd state \<Rightarrow>
     string \<Rightarrow> ('t, 'd, 'x) outcome" where
  "saveHandler c p r s v =
     (if initialValue s \<noteq> Some v then
        (case thing r of
           None \<Rightarrow> (s, [], None)
         | Some th \<Rightarrow>
            (case dataset s of
               None \<Rightarrow> (s, [], None)
             | Some d \<Rightarrow>
                 let newValue = v;
                     updatedResource =
                       (case locale p of
                          None \<Rightarrow> setStringNoLocale c th (property r) newValue
                        | Some l \<Rightarrow>
                            if truthy_string l
                            then setStringWithLocale c th (property r) newValue l
                            else setStringNoLocale c th (property r) newValue)
                 in catch_block p (try_block c p d updatedResource s)))
      else (s, [], None))"

subsection \<open>The handlers of the input and the render\<close>

definition onFocus :: "'d state \<Rightarrow> string \<Rightarrow> 'd state \<times> ('t, 'd, 'x) effect list" where
  "onFocus s v = (s\<lparr>initialValue := Some v\<rparr>, [Call_setInitialValue v])"

definition onChange :: "'d state \<Rightarrow> string \<Rightarrow> 'd state \<times> ('t, 'd, 'x) effect list" where
  "onChange s v = (s\<lparr>text := Some v\<rparr>, [Call_setText v])"

text \<open>\<open>autosave && saveHandler(e)\<close>.\<close>

definition onBlur ::
  "('t, 'd, 'x) solid_client \<Rightarrow> ('t, 'd, 'x) props \<Rightarrow> ('t, 'x) resolution \<Rightarrow> 'd state \<Rightarrow>
     string \<Rightarrow> ('t, 'd, 'x) outcome" where
  "onBlur c p r s v = (if autosave p then saveHandler c p r s v else (s, [], None))"

text \<open>
  The rendered elements. The input is kept as the JSX writes it: the \<open>type\<close> computed
  first, the spread \<open>inputProps\<close>, and the \<open>value\<close>; its three handlers are the
  functions above.
\<close>

datatype element =
    H3 string
  | Span attrs "string option"
  | Input string "attrs option" string

definition input_type :: "attrs option \<Rightarrow> string" where
  "input_type ip =
     (case ip of
        None \<Rightarrow> ''text''
      | Some a \<Rightarrow>
          (case map_of a ''type'' of
             None \<Rightarrow> ''text''
           | Some ty \<Rightarrow> if truthy_string ty then ty else ''text''))"

definition input_value :: "string option \<Rightarrow> string" where
  "input_value tx = (case tx of None \<Rightarrow> [] | Some u \<Rightarrow> if truthy_string u then u else [])"

text \<open>
  The render of \<open>Text\<close>: \<open>Inl\<close> when a queued updater of the error state throws, otherwise
  the children of the returned fragment (a \<open>false\<close> or \<open>undefined\<close> child renders nothing).
\<close>

definition Text ::
  "('t, 'd, 'x) props \<Rightarrow> ('t, 'x) resolution \<Rightarrow> 'd state \<Rightarrow> 'x thrown + element list" where
  "Text p r s =
     (case errorState s of
        Some m \<Rightarrow> Inl (Error m)
      | None \<Rightarrow>
          if dataset s = None \<and> thing r = None
          then Inr [H3 ''fetching data in progress'']
          else Inr
            ((if \<not> edit p \<and> dataset s \<noteq> None \<and> thing r \<noteq> None
              then [Span (other p) (text s)] else []) @
             (if edit p \<and> dataset s \<noteq> None \<and> thing r \<noteq> None
              then [Input (input_type (inputProps p)) (inputProps p) (input_value (text s))]
              else [])))"

subsection \<open>Reading a handler's result\<close>

text \<open>
  Where the write goes, if anywhere, and the thing that is written: the two values
  the branches of \<open>saveHandler\<close> compute before they call the writer.
\<close>

definition destination ::
  "('t, 'd, 'x) solid_client \<Rightarrow> ('t, 'd, 'x) props \<Rightarrow> 'd \<Rightarrow> url option" where
  "destination c p d =
     (case saveDatasetTo p of
        Some u \<Rightarrow>
          if truthy_url u then Some u
          else if hasResourceInfo c d then Some (UrlString (getSourceUrl c d)) else None
      | None \<Rightarrow> if hasResourceInfo c d then Some (UrlString (getSourceUrl c d)) else None)"

definition updated ::
  "('t, 'd, 'x) solid_client \<Rightarrow> ('t, 'd, 'x) props \<Rightarrow> ('t, 'x) resolution \<Rightarrow> 't \<Rightarrow>
     string \<Rightarrow> 't" where
  "updated c p r th v =
     (case locale p of
        None \<Rightarrow> setStringNoLocale c th (property r) v
      | Some l \<Rightarrow>
          if truthy_string l then setStringWithLocale c th (property r) v l
          else setStringNoLocale c th (property r) v)"

definition effects :: "('t, 'd, 'x) outcome \<Rightarrow> ('t, 'd, 'x) effect list" where
  "effects res = fst (snd res)"

definition after :: "('t, 'd, 'x) outcome \<Rightarrow> 'd state" where
  "after res = fst res"

section \<open>The Video component\<close>

text \<open>
  Modelled from the spec: the Video component. Its source file is not among the sources
  (only its test file is), so its change handler follows the spec's words: "on
  file-input change, if autosave is enabled and the file satisfies the size constraint,
  invoke the save step immediately; if autosave is disabled, no external write occurs and
  the local preview is not updated from the new file", with the writer
  \<open>overwriteFile(url, blob) -> blob\<close> that may fail, "browser object-URL allocation for
  local preview", the success callback on success, and on failure the error callback
  with the failure detail and no retry. A file satisfies the size constraint when it
  does not exceed the configured maximum, if one is configured.
\<close>

record "file" =
  file_name :: string
  file_size :: nat

record video_props =
  video_autosave :: bool
  maxSize :: "nat option"
  video_onSave :: bool
  video_onError :: bool

record video_state =
  videoObjectUrl :: "string option"

datatype 'x video_effect =
    Call_overwriteFile string "file"
  | Call_createObjectURL "file"
  | Call_video_onSave
  | Call_video_onError "'x thrown"

fun is_overwrite :: "'x video_effect \<Rightarrow> bool" where
  "is_overwrite (Call_overwriteFile u f) = True"
| "is_overwrite e = False"

definition within_maxSize :: "nat option \<Rightarrow> file \<Rightarrow> bool" where
  "within_maxSize m f = (case m of None \<Rightarrow> True | Some k \<Rightarrow> \<not> k < file_size f)"

text \<open>
  \<open>src\<close> is the URL the property holds, \<open>selected\<close> the first file of the input, if
  any; \<open>overwriteFile\<close> and \<open>createObjectURL\<close> are the writer and the browser's allocator.
\<close>

definition Video_onChange ::
  "(string \<Rightarrow> file \<Rightarrow> 'x thrown + file) \<Rightarrow> (file \<Rightarrow> string) \<Rightarrow> video_props \<Rightarrow> string \<Rightarrow>
     video_state \<Rightarrow> file option \<Rightarrow> video_state \<times> 'x video_effect list" where
  "Video_onChange overwriteFile createObjectURL p src s selected =
     (case selected of
        None \<Rightarrow> (s, [])
      | Some f \<Rightarrow>
          if video_autosave p \<and> within_maxSize (maxSize p) f then
            (case overwriteFile src f of
               Inl x \<Rightarrow>
                 (s, Call_overwriteFile src f # (if video_onError p then [Call_video_onError x] else []))
             | Inr saved \<Rightarrow>
                 (s\<lparr>videoObjectUrl := Some (createObjectURL saved)\<rparr>,
                  [Call_overwriteFile src f, Call_createObjectURL saved] @
                  (if video_onSave p then [Call_video_onSave] else [])))
          else (s, []))"

section \<open>Fixtures\<close>

text \<open>
  A small instance of the library for concrete runs: a thing is a list of
  (property, literal) pairs, a dataset a list of things with its source URL, if it
  has one. \<open>demo_client\<close> accepts every write, \<open>rejecting_client\<close> rejects every write.
\<close>

type_synonym demo_thing = "(property \<times> string) list"

type_synonym demo_dataset = "demo_thing list \<times> string option"

definition demo_client :: "(demo_thing, demo_dataset, string) solid_client" where
  "demo_client =
     \<lparr> setStringWithLocale = (\<lambda>t pr v l. (pr, v @ ''@'' @ l) # t),
       setStringNoLocale = (\<lambda>t pr v. (pr, v) # t),
       setThing = (\<lambda>d t. (t # fst d, snd d)),
       saveSolidDatasetAt = (\<lambda>u d. Inr (fst d, Some (case u of NamedNode n \<Rightarrow> n | UrlString n \<Rightarrow> n))),
       getSourceUrl = (\<lambda>d. case snd d of None \<Rightarrow> [] | Some u \<Rightarrow> u),
       hasResourceInfo = (\<lambda>d. snd d \<noteq> None) \<rparr>"

definition rejecting_client :: "(demo_thing, demo_dataset, string) solid_client" where
  "rejecting_client = demo_client \<lparr> saveSolidDatasetAt := (\<lambda>u d. Inl (Rejection ''403'')) \<rparr>"

definition demo_property :: property where
  "demo_property = ''http://xmlns.com/foaf/0.1/nick''"

definition demo_thing :: demo_thing where
  "demo_thing = [(demo_property, ''old'')]"

definition stored_dataset :: demo_dataset where
  "stored_dataset = ([demo_thing], Some ''https://pod.example/profile'')"

definition new_dataset :: demo_dataset where
  "new_dataset = ([demo_thing], None)"

definition demo_resolution :: "(demo_thing, string) resolution" where
  "demo_resolution =
     \<lparr> error = None, value = Some ''old'', thing = Some demo_thing, property = demo_property \<rparr>"

definition unresolved_resolution :: "(demo_thing, string) resolution" where
  "unresolved_resolution =
     \<lparr> error = Some (Error ''Thing not found''), value = None, thing = None,
       property = demo_property \<rparr>"

text \<open>Edit mode with autosave, both callbacks given and returning normally.\<close>

definition demo_props :: "(demo_thing, demo_dataset, string) props" where
  "demo_props =
     \<lparr> saveDatasetTo = None, locale = None,
       onSave = Some (\<lambda>d t. Returned), onError = Some (\<lambda>x. Returned),
       edit = True, autosave = True, inputProps = None, other = [] \<rparr>"

definition static_props :: "(demo_thing, demo_dataset, string) props" where
  "static_props = demo_props \<lparr> edit := False, autosave := False \<rparr>"

text \<open>
  The state of an input that was mounted over the dataset \<open>d\<close>, focused at \<open>''old''\<close>
  and then changed to \<open>''new''\<close>.
\<close>

definition edited_state :: "demo_dataset option \<Rightarrow> demo_dataset state" where
  "edited_state d =
     fst (onChange
            (fst (onFocus (mount demo_resolution d) ''old''
                  :: demo_dataset state \<times> (demo_thing, demo_dataset, string) effect list))
            ''new''
          :: demo_dataset state \<times> (demo_thing, demo_dataset, string) effect list)"

text \<open>
  What \<open>useProperty\<close> resolves once the parent passes the thing it received in \<open>onSave\<close>
  back as the \<open>thing\<close> prop: the updated thing, whose value is \<open>''new''\<close>.
\<close>

definition renewed_resolution :: "(demo_thing, string) resolution" where
  "renewed_resolution =
     \<lparr> error = None, value = Some ''new'', thing = Some ((demo_property, ''new'') # demo_thing),
       property = demo_property \<rparr>"

text \<open>The video of the component's test, an autosaving Video with \<open>maxSize\<close> 0.\<close>

definition demo_file :: "file" where
  "demo_file = \<lparr> file_name = ''video.mp4'', file_size = 1024 \<rparr>"

definition demo_video_props :: video_props where
  "demo_video_props =
     \<lparr> video_autosave = True, maxSize = Some 0, video_onSave = True, video_onError = True \<rparr>"

section \<open>Properties of the Text component\<close>

subsection \<open>Helper facts\<close>

lemma saveHandler_absent:
  "thing r = None \<or> dataset s = None \<Longrightarrow> saveHandler c p r s v = (s, [], None)"
  by (auto simp: saveHandler_def split: option.splits)

lemma saveHandler_same:
  "initialValue s = Some v \<Longrightarrow> saveHandler c p r s v = (s, [], None)"
  by (simp add: saveHandler_def)

lemma saveHandler_run:
  assumes "initialValue s \<noteq> Some v" and "thing r = Some th" and "dataset s = Some d"
  shows "saveHandler c p r s v = catch_block p (try_block c p d (updated c p r th v) s)"
  using assms by (simp add: saveHandler_def updated_def Let_def split: option.splits)

lemma save_branch_to:
  "destination c p d = Some u \<Longrightarrow>
     save_branch c p d t s = save_at c u (setThing c d t) s"
  by (auto simp: destination_def save_branch_def split: option.splits if_splits)

lemma save_branch_nowhere:
  "destination c p d = None \<Longrightarrow>
     save_branch c p d t s =
       (s\<lparr>errorState := Some no_destination\<rparr>, [Call_setErrorState no_destination], Inr None)"
  by (auto simp: destination_def save_branch_def split: option.splits if_splits)

subsection \<open>Blur without a change\<close>

text \<open>
  Claim C1. A blur whose input value \<open>e.target.value\<close> equals the initial value
  snapshotted on focus does nothing, with or without autosave: the state is unchanged,
  the list of effects is empty (so \<open>saveSolidDatasetAt\<close>, \<open>onSave\<close> and \<open>onError\<close> are
  not called), and the handler ends normally.
\<close>

theorem blur_unchanged_is_silent:
  assumes "initialValue s = Some v"
  shows "onBlur c p r s v = (s, [], None)"
  using assms by (simp add: onBlur_def saveHandler_same)

theorem blur_unchanged_is_silent_witness:
  "initialValue (mount demo_resolution (Some stored_dataset)) = Some ''old'' \<and>
   onBlur demo_client demo_props demo_resolution (mount demo_resolution (Some stored_dataset)) ''old''
     = (mount demo_resolution (Some stored_dataset), [], None)"
  using blur_unchanged_is_silent
    [of "mount demo_resolution (Some stored_dataset)" "''old''" demo_client demo_props
        demo_resolution]
  by (simp add: mount_def demo_resolution_def)

subsection \<open>Blur without a thing or a dataset\<close>

text \<open>
  Claim C10. When the thing or the dataset is absent, a blur is a complete no-op, also
  with autosave on and an input value that differs from the initial value: no write, no
  change of state, no call of \<open>onSave\<close> or \<open>onError\<close>.
\<close>

theorem blur_without_data_is_noop:
  assumes "thing r = None \<or> dataset s = None"
  shows "onBlur c p r s v = (s, [], None)"
  using assms by (simp add: onBlur_def saveHandler_absent)

theorem blur_without_data_is_noop_witness:
  "(thing unresolved_resolution = None \<or> dataset (mount unresolved_resolution (Some stored_dataset)) = None) \<and>
   autosave demo_props \<and>
   initialValue (mount unresolved_resolution (Some stored_dataset)) \<noteq> Some ''new'' \<and>
   onBlur demo_client demo_props unresolved_resolution
       (mount unresolved_resolution (Some stored_dataset)) ''new''
     = (mount unresolved_resolution (Some stored_dataset), [], None)"
  using blur_without_data_is_noop
    [of unresolved_resolution "mount unresolved_resolution (Some stored_dataset)"
        demo_client demo_props "''new''"]
  by (simp add: mount_def unresolved_resolution_def demo_props_def)

subsection \<open>Change events\<close>

text \<open>
  Claim C7. A change event on the input only sets the text state to the input's value:
  the single effect is the call of \<open>setText\<close> (no call of the writer, of \<open>setDataset\<close> or of
  a callback), and the initial value, the dataset and the error state are as before.
\<close>

theorem change_updates_text_only:
  "onChange s v = (s\<lparr>text := Some v\<rparr>, [Call_setText v]) \<and>
   filter is_write (snd (onChange s v)) = [] \<and>
   filter is_setDataset (snd (onChange s v)) = [] \<and>
   initialValue (fst (onChange s v)) = initialValue s \<and>
   dataset (fst (onChange s v)) = dataset s \<and>
   errorState (fst (onChange s v)) = errorState s \<and>
   text (fst (onChange s v)) = Some v"
  by (simp add: onChange_def)

subsection \<open>A write that fails\<close>

lemma saveHandler_rejected:
  assumes "initialValue s \<noteq> Some v" and "thing r = Some th" and "dataset s = Some d"
    and "destination c p d = Some u"
    and "saveSolidDatasetAt c u (setThing c d (updated c p r th v)) = Inl x"
  shows "saveHandler c p r s v =
           catch_block p
             (s, [Call_saveSolidDatasetAt u (setThing c d (updated c p r th v))], Some x)"
  using assms
  by (simp add: saveHandler_run try_block_def save_branch_to save_at_def)

text \<open>
  Claim C3. When the write is rejected with \<open>x\<close>: the state is as before (so the dataset
  and the displayed text are unchanged), \<open>setDataset\<close> is not called, the writer has been
  called once and is not called again, and \<open>onError\<close>, when the caller gave one, is called
  exactly once, with \<open>x\<close>.
\<close>

theorem write_failure_reports_once:
  assumes "initialValue s \<noteq> Some v" and "thing r = Some th" and "dataset s = Some d"
    and "destination c p d = Some u"
    and "saveSolidDatasetAt c u (setThing c d (updated c p r th v)) = Inl x"
  shows "after (saveHandler c p r s v) = s \<and>
         filter is_write (effects (saveHandler c p r s v))
           = [Call_saveSolidDatasetAt u (setThing c d (updated c p r th v))] \<and>
         filter is_setDataset (effects (saveHandler c p r s v)) = [] \<and>
         filter is_onSave (effects (saveHandler c p r s v)) = [] \<and>
         (onError p \<noteq> None \<longrightarrow>
            filter is_onError (effects (saveHandler c p r s v)) = [Call_onError x])"
  unfolding saveHandler_rejected [OF assms]
  by (auto simp: catch_block_def after_def effects_def split: option.splits completion.splits)

theorem write_failure_reports_once_witness:
  "initialValue (mount demo_resolution (Some stored_dataset)) \<noteq> Some ''new'' \<and>
   onError demo_props \<noteq> None \<and>
   after (saveHandler rejecting_client demo_props demo_resolution
            (mount demo_resolution (Some stored_dataset)) ''new'')
     = mount demo_resolution (Some stored_dataset) \<and>
   filter is_write (effects (saveHandler rejecting_client demo_props demo_resolution
            (mount demo_resolution (Some stored_dataset)) ''new''))
     = [Call_saveSolidDatasetAt (UrlString ''https://pod.example/profile'')
          ([(demo_property, ''new'') # demo_thing, demo_thing], Some ''https://pod.example/profile'')] \<and>
   filter is_setDataset (effects (saveHandler rejecting_client demo_props demo_resolution
            (mount demo_resolution (Some stored_dataset)) ''new'')) = [] \<and>
   filter is_onError (effects (saveHandler rejecting_client demo_props demo_resolution
            (mount demo_resolution (Some stored_dataset)) ''new''))
     = [Call_onError (Rejection ''403'')]"
  using write_failure_reports_once
    [of "mount demo_resolution (Some stored_dataset)" "''new''" demo_resolution demo_thing
        stored_dataset rejecting_client demo_props
        "UrlString ''https://pod.example/profile''" "Rejection ''403''"]
  by (simp add: mount_def demo_resolution_def demo_props_def rejecting_client_def
      demo_client_def stored_dataset_def destination_def updated_def)

subsection \<open>A write that succeeds\<close>

lemma saveHandler_saved:
  assumes "initialValue s \<noteq> Some v" and "thing r = Some th" and "dataset s = Some d"
    and "destination c p d = Some u"
    and "saveSolidDatasetAt c u (setThing c d (updated c p r th v)) = Inr saved"
  shows "saveHandler c p r s v =
           catch_block p
             (case onSave p of
                None \<Rightarrow>
                  (s\<lparr>dataset := Some saved\<rparr>,
                   [Call_saveSolidDatasetAt u (setThing c d (updated c p r th v)),
                    Call_setDataset saved], None)
              | Some f \<Rightarrow>
                  (s\<lparr>dataset := Some saved\<rparr>,
                   [Call_saveSolidDatasetAt u (setThing c d (updated c p r th v)),
                    Call_setDataset saved, Call_onSave (Some saved) (updated c p r th v)],
                   case f (Some saved) (updated c p r th v) of
                     Returned \<Rightarrow> None | Threw y \<Rightarrow> Some y))"
  using assms
  by (simp add: saveHandler_run try_block_def save_branch_to save_at_def
      split: option.splits completion.splits)

text \<open>
  Claim C4. When the write is resolved with \<open>saved\<close>: the dataset of the state is
  \<open>saved\<close> (one call of \<open>setDataset\<close>, with \<open>saved\<close>) and nothing else of the state changes,
  the writer has been called once, and \<open>onSave\<close>, when the caller gave one, is called
  exactly once, with \<open>saved\<close> and the updated thing.
\<close>

theorem write_success_replaces_dataset:
  assumes "initialValue s \<noteq> Some v" and "thing r = Some th" and "dataset s = Some d"
    and "destination c p d = Some u"
    and "saveSolidDatasetAt c u (setThing c d (updated c p r th v)) = Inr saved"
  shows "after (saveHandler c p r s v) = s\<lparr>dataset := Some saved\<rparr> \<and>
         filter is_write (effects (saveHandler c p r s v))
           = [Call_saveSolidDatasetAt u (setThing c d (updated c p r th v))] \<and>
         filter is_setDataset (effects (saveHandler c p r s v)) = [Call_setDataset saved] \<and>
         (onSave p \<noteq> None \<longrightarrow>
            filter is_onSave (effects (saveHandler c p r s v))
              = [Call_onSave (Some saved) (updated c p r th v)]) \<and>
         (onSave p = None \<longrightarrow> filter is_onSave (effects (saveHandler c p r s v)) = [])"
  unfolding saveHandler_saved [OF assms]
  by (auto simp: catch_block_def after_def effects_def split: option.splits completion.splits)

theorem write_success_replaces_dataset_witness:
  "initialValue (mount demo_resolution (Some new_dataset)) \<noteq> Some ''new'' \<and>
   onSave (demo_props\<lparr>saveDatasetTo := Some (UrlString ''https://pod.example/card'')\<rparr>) \<noteq> None \<and>
   dataset (after (saveHandler demo_client
            (demo_props\<lparr>saveDatasetTo := Some (UrlString ''https://pod.example/card'')\<rparr>)
            demo_resolution (mount demo_resolution (Some new_dataset)) ''new''))
     = Some ([(demo_property, ''new'') # demo_thing, demo_thing], Some ''https://pod.example/card'') \<and>
   filter is_setDataset (effects (saveHandler demo_client
            (demo_props\<lparr>saveDatasetTo := Some (UrlString ''https://pod.example/card'')\<rparr>)
            demo_resolution (mount demo_resolution (Some new_dataset)) ''new''))
     = [Call_setDataset
          ([(demo_property, ''new'') # demo_thing, demo_thing], Some ''https://pod.example/card'')] \<and>
   filter is_onSave (effects (saveHandler demo_client
            (demo_props\<lparr>saveDatasetTo := Some (UrlString ''https://pod.example/card'')\<rparr>)
            demo_resolution (mount demo_resolution (Some new_dataset)) ''new''))
     = [Call_onSave
          (Some ([(demo_property, ''new'') # demo_thing, demo_thing], Some ''https://pod.example/card''))
          ((demo_property, ''new'') # demo_thing)]"
  using write_success_replaces_dataset
    [of "mount demo_resolution (Some new_dataset)" "''new''" demo_resolution demo_thing
        new_dataset demo_client
        "demo_props\<lparr>saveDatasetTo := Some (UrlString ''https://pod.example/card'')\<rparr>"
        "UrlString ''https://pod.example/card''"
        "([(demo_property, ''new'') # demo_thing, demo_thing], Some ''https://pod.example/card'')"]
  by (simp add: mount_def demo_resolution_def demo_props_def demo_client_def new_dataset_def
      destination_def updated_def)

subsection \<open>Blur with a change\<close>

lemma edited_state_simp:
  "edited_state d =
     \<lparr> text = Some ''new'', initialValue = Some ''old'', errorState = None, dataset = d \<rparr>"
  by (simp add: edited_state_def onChange_def onFocus_def mount_def demo_resolution_def)

lemma onBlur_nowhere:
  assumes "autosave p" and "initialValue s \<noteq> Some v" and "thing r = Some th"
    and "dataset s = Some d" and "destination c p d = None"
  shows "onBlur c p r s v =
           catch_block p
             (case onSave p of
                None \<Rightarrow>
                  (s\<lparr>errorState := Some no_destination\<rparr>,
                   [Call_setErrorState no_destination], None)
              | Some f \<Rightarrow>
                  (s\<lparr>errorState := Some no_destination\<rparr>,
                   [Call_setErrorState no_destination, Call_onSave None (updated c p r th v)],
                   case f None (updated c p r th v) of Returned \<Rightarrow> None | Threw y \<Rightarrow> Some y))"
  using assms
  by (simp add: onBlur_def saveHandler_run try_block_def save_branch_nowhere
      split: option.splits completion.splits)

lemma onBlur_to:
  assumes "autosave p" and "initialValue s \<noteq> Some v" and "thing r = Some th"
    and "dataset s = Some d" and "destination c p d = Some u"
  shows "onBlur c p r s v =
           catch_block p
             (try_block c p d (updated c p r th v) s)"
  using assms by (simp add: onBlur_def saveHandler_run)

lemma try_block_to:
  assumes "destination c p d = Some u"
  shows "\<exists>s' rest e. try_block c p d t s = (s', Call_saveSolidDatasetAt u (setThing c d t) # rest, e)
            \<and> filter is_write rest = []"
  using assms
  by (auto simp: try_block_def save_branch_to save_at_def
      split: option.splits completion.splits sum.splits)

lemma catch_block_appends:
  "\<exists>s' more e'. catch_block p (s, tr, e) = (s', tr @ more, e') \<and> filter is_write more = []"
  by (auto simp: catch_block_def split: option.splits completion.splits)

text \<open>
  Claim C2, as the code has it. A blur with autosave on and an input value that differs
  from the initial value, with the thing and the dataset present and a destination to
  save to (a truthy \<open>saveDatasetTo\<close>, or a dataset that has resource info): the first
  effect of the handler is the call of the writer, and the writer is not called again.
  So the writer is called exactly once, before any call of \<open>setDataset\<close>.
\<close>

theorem blur_changed_writes_once_first:
  assumes "autosave p" and "initialValue s \<noteq> Some v" and "thing r = Some th"
    and "dataset s = Some d" and "destination c p d = Some u"
  shows "\<exists>rest. effects (onBlur c p r s v)
            = Call_saveSolidDatasetAt u (setThing c d (updated c p r th v)) # rest
          \<and> filter is_write rest = [] \<and>
          filter is_write (effects (onBlur c p r s v))
            = [Call_saveSolidDatasetAt u (setThing c d (updated c p r th v))]"
proof -
  obtain s' rest e where t:
    "try_block c p d (updated c p r th v) s
       = (s', Call_saveSolidDatasetAt u (setThing c d (updated c p r th v)) # rest, e)"
    and rest: "filter is_write rest = []"
    using try_block_to [OF assms(5)] by blast
  obtain s'' more e' where c:
    "catch_block p (s', Call_saveSolidDatasetAt u (setThing c d (updated c p r th v)) # rest, e)
       = (s'', (Call_saveSolidDatasetAt u (setThing c d (updated c p r th v)) # rest) @ more, e')"
    and more: "filter is_write more = []"
    using catch_block_appends by blast
  have "effects (onBlur c p r s v)
          = Call_saveSolidDatasetAt u (setThing c d (updated c p r th v)) # (rest @ more)"
    by (simp add: onBlur_to [OF assms] t c effects_def)
  moreover have "filter is_write (rest @ more) = []"
    using rest more by simp
  ultimately show ?thesis by simp
qed

theorem blur_changed_writes_once_first_witness:
  "autosave demo_props \<and>
   initialValue (edited_state (Some stored_dataset)) \<noteq> Some ''new'' \<and>
   (\<exists>rest. effects (onBlur demo_client demo_props demo_resolution
                     (edited_state (Some stored_dataset)) ''new'')
            = Call_saveSolidDatasetAt (UrlString ''https://pod.example/profile'')
                ([(demo_property, ''new'') # demo_thing, demo_thing],
                 Some ''https://pod.example/profile'') # rest
          \<and> filter is_write rest = [] \<and>
          filter is_write (effects (onBlur demo_client demo_props demo_resolution
                     (edited_state (Some stored_dataset)) ''new''))
            = [Call_saveSolidDatasetAt (UrlString ''https://pod.example/profile'')
                ([(demo_property, ''new'') # demo_thing, demo_thing],
                 Some ''https://pod.example/profile'')])"
  using blur_changed_writes_once_first
    [of demo_props "edited_state (Some stored_dataset)" "''new''" demo_resolution demo_thing
        stored_dataset demo_client "UrlString ''https://pod.example/profile''"]
  by (simp add: edited_state_simp demo_resolution_def demo_props_def demo_client_def
      stored_dataset_def destination_def updated_def)

text \<open>
  The claim as written has no condition on the destination. With a dataset that was
  never saved and no \<open>saveDatasetTo\<close>, the input is rendered, the blur has autosave on
  and a changed value, and the writer is not called at all.
\<close>

theorem blur_changed_writes_once_counterexample:
  "autosave demo_props \<and>
   Text demo_props demo_resolution (edited_state (Some new_dataset))
     = Inr [Input ''text'' None ''new''] \<and>
   initialValue (edited_state (Some new_dataset)) \<noteq> Some ''new'' \<and>
   filter is_write (effects (onBlur demo_client demo_props demo_resolution
                      (edited_state (Some new_dataset)) ''new'')) = [] \<and>
   length (filter is_write (effects (onBlur demo_client demo_props demo_resolution
                      (edited_state (Some new_dataset)) ''new''))) \<noteq> 1"
  by (simp add: edited_state_simp demo_resolution_def demo_props_def demo_client_def
      new_dataset_def onBlur_def saveHandler_def try_block_def save_branch_def
      catch_block_def effects_def Text_def input_type_def input_value_def truthy_string_def)

subsection \<open>Saving with no destination\<close>

text \<open>
  Claim C5, as the code has it. An autosave blur with a changed value over a dataset with
  no destination (no truthy \<open>saveDatasetTo\<close>, no resource info) calls neither the writer
  nor \<open>setDataset\<close>; it hands the error "Please provide saveDatasetTo location for new
  data" to \<open>setErrorState\<close> as a throwing updater, so that the next render of \<open>Text\<close>
  throws it. The handler itself passes nothing to \<open>onError\<close> when \<open>onSave\<close> is absent or
  returns normally.
\<close>

theorem save_without_destination_throws_in_render:
  assumes "autosave p" and "initialValue s \<noteq> Some v" and "thing r = Some th"
    and "dataset s = Some d" and "destination c p d = None"
  shows "filter is_write (effects (onBlur c p r s v)) = [] \<and>
         filter is_setDataset (effects (onBlur c p r s v)) = [] \<and>
         Call_setErrorState no_destination \<in> set (effects (onBlur c p r s v)) \<and>
         errorState (after (onBlur c p r s v)) = Some no_destination \<and>
         Text p r (after (onBlur c p r s v)) = Inl (Error no_destination) \<and>
         ((case onSave p of None \<Rightarrow> True | Some f \<Rightarrow> f None (updated c p r th v) = Returned)
            \<longrightarrow> filter is_onError (effects (onBlur c p r s v)) = [])"
  unfolding onBlur_nowhere [OF assms]
  by (auto simp: catch_block_def after_def effects_def Text_def
      split: option.splits completion.splits)

theorem save_without_destination_throws_in_render_witness:
  "autosave demo_props \<and>
   initialValue (edited_state (Some new_dataset)) \<noteq> Some ''new'' \<and>
   destination demo_client demo_props new_dataset = None \<and>
   filter is_write (effects (onBlur demo_client demo_props demo_resolution
                      (edited_state (Some new_dataset)) ''new'')) = [] \<and>
   errorState (after (onBlur demo_client demo_props demo_resolution
                      (edited_state (Some new_dataset)) ''new'')) = Some no_destination \<and>
   Text demo_props demo_resolution
     (after (onBlur demo_client demo_props demo_resolution
               (edited_state (Some new_dataset)) ''new'')) = Inl (Error no_destination) \<and>
   filter is_onError (effects (onBlur demo_client demo_props demo_resolution
                      (edited_state (Some new_dataset)) ''new'')) = []"
  using save_without_destination_throws_in_render
    [of demo_props "edited_state (Some new_dataset)" "''new''" demo_resolution demo_thing
        new_dataset demo_client]
  by (simp add: edited_state_simp demo_resolution_def demo_props_def demo_client_def
      new_dataset_def destination_def)

text \<open>
  The claim as written has the condition reported through \<open>onError\<close> and nothing thrown
  out of the component. With \<open>onError\<close> given, the handler does not call it, and the
  render that follows throws.
\<close>

theorem save_without_destination_counterexample:
  "onError demo_props \<noteq> None \<and> autosave demo_props \<and>
   saveDatasetTo demo_props = None \<and> \<not> hasResourceInfo demo_client new_dataset \<and>
   filter is_onError (effects (onBlur demo_client demo_props demo_resolution
                      (edited_state (Some new_dataset)) ''new'')) = [] \<and>
   Text demo_props demo_resolution
     (after (onBlur demo_client demo_props demo_resolution
               (edited_state (Some new_dataset)) ''new'')) = Inl (Error no_destination)"
  by (simp add: edited_state_simp demo_resolution_def demo_props_def demo_client_def
      new_dataset_def onBlur_def saveHandler_def try_block_def save_branch_def
      catch_block_def effects_def after_def Text_def)

text \<open>
  Claim C9. In the same situation \<open>onSave\<close>, when the caller gave one, is still called,
  exactly once, with an undefined saved dataset and the updated thing, although the
  writer was never called.
\<close>

theorem save_without_destination_calls_onSave:
  assumes "autosave p" and "initialValue s \<noteq> Some v" and "thing r = Some th"
    and "dataset s = Some d" and "destination c p d = None" and "onSave p = Some f"
  shows "filter is_onSave (effects (onBlur c p r s v))
           = [Call_onSave None (updated c p r th v)] \<and>
         filter is_write (effects (onBlur c p r s v)) = []"
  unfolding onBlur_nowhere [OF assms(1-5)] using assms(6)
  by (auto simp: catch_block_def effects_def split: option.splits completion.splits)

theorem save_without_destination_calls_onSave_witness:
  "autosave demo_props \<and>
   initialValue (edited_state (Some new_dataset)) \<noteq> Some ''new'' \<and>
   destination demo_client demo_props new_dataset = None \<and>
   onSave demo_props \<noteq> None \<and>
   filter is_onSave (effects (onBlur demo_client demo_props demo_resolution
                      (edited_state (Some new_dataset)) ''new''))
     = [Call_onSave None ((demo_property, ''new'') # demo_thing)] \<and>
   filter is_write (effects (onBlur demo_client demo_props demo_resolution
                      (edited_state (Some new_dataset)) ''new'')) = []"
  using save_without_destination_calls_onSave
    [of demo_props "edited_state (Some new_dataset)" "''new''" demo_resolution demo_thing
        new_dataset demo_client "\<lambda>d t. Returned"]
  by (simp add: edited_state_simp demo_resolution_def demo_props_def demo_client_def
      new_dataset_def destination_def updated_def)

subsection \<open>Static rendering\<close>

text \<open>
  The span shows the text state, which \<open>useState(value)\<close> initialises from the resolved
  value at the first render and which only \<open>setText\<close> writes afterwards.
\<close>

lemma static_render_shows_text:
  assumes "\<not> edit p" and "thing r = Some th" and "dataset s = Some d"
    and "errorState s = None"
  shows "Text p r s = Inr [Span (other p) (text s)]"
  using assms by (simp add: Text_def)

text \<open>
  Claim C6, as the code has it. With \<open>edit\<close> false, both the thing and the dataset
  present, the text state holding the resolved value and no error queued for the render,
  \<open>Text\<close> renders one span, with the rest of the props as attributes, whose content is the
  resolved string verbatim. The first render is such a state, whatever the dataset.
\<close>

theorem static_render_shows_value:
  assumes "\<not> edit p" and "thing r = Some th" and "value r = Some v"
    and "dataset s = Some d" and "text s = value r" and "errorState s = None"
  shows "Text p r s = Inr [Span (other p) (Some v)] \<and>
         Text p r (mount r (Some d')) = Inr [Span (other p) (Some v)]"
  using assms by (simp add: Text_def mount_def)

theorem static_render_shows_value_witness:
  "\<not> edit static_props \<and> thing renewed_resolution \<noteq> None \<and>
   value renewed_resolution = Some ''new'' \<and>
   dataset (edited_state (Some stored_dataset)) = Some stored_dataset \<and>
   text (edited_state (Some stored_dataset)) = value renewed_resolution \<and>
   errorState (edited_state (Some stored_dataset)) = None \<and>
   Text static_props renewed_resolution (edited_state (Some stored_dataset))
     = Inr [Span [] (Some ''new'')] \<and>
   Text static_props renewed_resolution (mount renewed_resolution (Some new_dataset))
     = Inr [Span [] (Some ''new'')]"
  using static_render_shows_value
    [of static_props renewed_resolution "(demo_property, ''new'') # demo_thing" "''new''"
        "edited_state (Some stored_dataset)" stored_dataset new_dataset]
  by (simp add: static_props_def demo_props_def renewed_resolution_def edited_state_simp)

text \<open>
  The claim as written asks this of every resolved value with \<open>edit\<close> false. It fails in
  three ways, each at a resolved value and with \<open>edit\<close> false.

  By the guard \<open>!edit && dataset && thing\<close> of the span: a thing passed without a dataset
  resolves its value \<open>''old''\<close>, and the fragment is empty.

  By the text state being read from \<open>value\<close> at the first render only, with nothing that
  brings it back in step afterwards; here the thing and the dataset are both present.
  After a change event to \<open>''new''\<close> that was never saved, the span shows \<open>''new''\<close> while the
  resolved value is \<open>''old''\<close>. After a first render that had no thing and no value yet,
  the span stays empty once the value \<open>''old''\<close> is resolved.

  By the queued error of a save without destination: the handler has called \<open>onSave\<close> with
  the updated thing, the parent passes that thing back with \<open>edit\<close> false, the text state
  and the resolved value are both \<open>''new''\<close>, and the render throws.
\<close>

theorem static_render_counterexample:
  "\<not> edit static_props \<and> value demo_resolution = Some ''old'' \<and>
   thing demo_resolution = Some demo_thing \<and>
   Text static_props demo_resolution (mount demo_resolution None) = Inr [] \<and>
   Text static_props demo_resolution (mount demo_resolution None)
     \<noteq> Inr [Span (other static_props) (Some ''old'')] \<and>
   dataset (edited_state (Some stored_dataset)) = Some stored_dataset \<and>
   Text static_props demo_resolution (edited_state (Some stored_dataset))
     = Inr [Span [] (Some ''new'')] \<and>
   Text static_props demo_resolution
       ((mount unresolved_resolution None) \<lparr> dataset := Some stored_dataset \<rparr>)
     = Inr [Span [] None] \<and>
   value renewed_resolution = Some ''new'' \<and>
   thing renewed_resolution = Some ((demo_property, ''new'') # demo_thing) \<and>
   filter is_onSave (effects (onBlur demo_client demo_props demo_resolution
                      (edited_state (Some new_dataset)) ''new''))
     = [Call_onSave None ((demo_property, ''new'') # demo_thing)] \<and>
   text (after (onBlur demo_client demo_props demo_resolution
                  (edited_state (Some new_dataset)) ''new'')) = Some ''new'' \<and>
   dataset (after (onBlur demo_client demo_props demo_resolution
                     (edited_state (Some new_dataset)) ''new'')) = Some new_dataset \<and>
   Text static_props renewed_resolution
       (after (onBlur demo_client demo_props demo_resolution
                 (edited_state (Some new_dataset)) ''new''))
     = Inl (Error no_destination)"
  by (simp add: static_props_def demo_props_def demo_resolution_def renewed_resolution_def
      unresolved_resolution_def edited_state_simp demo_client_def new_dataset_def
      stored_dataset_def onBlur_def saveHandler_def try_block_def save_branch_def
      catch_block_def effects_def after_def Text_def mount_def)

section \<open>Properties of the Video component\<close>

text \<open>
  Claim C8. On a file-input change with autosave on, a file whose size exceeds the
  configured \<open>maxSize\<close> does not reach the writer: \<open>overwriteFile\<close> is not called (and the
  preview is as before).
\<close>

theorem oversized_file_is_not_written:
  assumes "video_autosave p" and "maxSize p = Some m" and "m < file_size f"
  shows "filter is_overwrite (snd (Video_onChange overwriteFile createObjectURL p src s (Some f))) = []
         \<and> fst (Video_onChange overwriteFile createObjectURL p src s (Some f)) = s"
  using assms by (simp add: Video_onChange_def within_maxSize_def)

theorem oversized_file_is_not_written_witness:
  "video_autosave demo_video_props \<and> maxSize demo_video_props = Some 0 \<and>
   0 < file_size demo_file \<and>
   filter is_overwrite
     (snd (Video_onChange (\<lambda>u f. Inr f :: string thrown + file) (\<lambda>f. ''blob:'' @ file_name f)
             demo_video_props ''http://test.url/video.mp4'' \<lparr>videoObjectUrl = None\<rparr>
             (Some demo_file))) = []"
  using oversized_file_is_not_written
    [of demo_video_props 0 demo_file "\<lambda>u f. Inr f :: string thrown + file"
        "\<lambda>f. ''blob:'' @ file_name f" "''http://test.url/video.mp4''"
        "\<lparr>videoObjectUrl = None\<rparr>"]
  by (simp add: demo_video_props_def demo_file_def)

end
